theory Spec2Isabelle
  imports Complex_Main "HOL-Library.Char_ord" "HOL-Library.List_Lexorder"
    "HOL-Library.Sublist" "HOL-Library.Multiset" "HOL-Library.Word"
begin

section \<open>Strings\<close>

text \<open>
  A text is a list of 8-bit characters, read as the UTF-16 code units U+0000 to U+00FF.
  On that range \<^verbatim>\<open>String.prototype.toLowerCase\<close> maps A-Z and the Latin-1 capitals
  (U+00C0 to U+00DE, the multiplication sign U+00D7 apart) 32 places up, and
  \<^verbatim>\<open>String.prototype.trim\<close> strips TAB, LF, VT, FF, CR, SPACE and NBSP from both ends.
\<close>

definition lowerChar :: "char \<Rightarrow> char" where
  "lowerChar c =
     (let n = (of_char c :: nat)
      in if (65 \<le> n \<and> n \<le> 90) \<or> (192 \<le> n \<and> n \<le> 222 \<and> n \<noteq> 215)
         then char_of (n + 32) else c)"

definition toLowerCase :: "string \<Rightarrow> string" where
  "toLowerCase s = map lowerChar s"

definition isWhiteSpace :: "char \<Rightarrow> bool" where
  "isWhiteSpace c =
     (let n = (of_char c :: nat) in (9 \<le> n \<and> n \<le> 13) \<or> n = 32 \<or> n = 160)"

definition trim :: "string \<Rightarrow> string" where
  "trim s = rev (dropWhile isWhiteSpace (rev (dropWhile isWhiteSpace s)))"

text \<open>The regular expression class \<^verbatim>\<open>\w\<close>: ASCII letters, digits and the underscore.\<close>

definition isWordChar :: "char \<Rightarrow> bool" where
  "isWordChar c =
     (let n = (of_char c :: nat)
      in (48 \<le> n \<and> n \<le> 57) \<or> (65 \<le> n \<and> n \<le> 90) \<or> n = 95 \<or> (97 \<le> n \<and> n \<le> 122))"

section \<open>Tag extraction (agent.ts, extractEntities)\<close>

record ExtractedEntity =
  xe_name :: string
  xe_type :: string

text \<open>
  \<^verbatim>\<open>/\[\[(\w+):([^\]]+)\]\]/\<close> tried at the start of \<open>s\<close>: the two groups and the text
  after the match. Both groups are greedy and each is followed by a character outside
  its own class, so backtracking to a shorter group can never succeed: the match, when
  there is one, takes the longest run of word characters and the longest run of
  characters other than \<^verbatim>\<open>]\<close>.
\<close>

definition matchTyped :: "string \<Rightarrow> (string \<times> string \<times> string) option" where
  "matchTyped s =
     (case s of
        a # b # r \<Rightarrow>
          if a = CHR ''['' \<and> b = CHR ''[''
          then (let w = takeWhile isWordChar r; r1 = dropWhile isWordChar r
                in if w = [] then None
                   else (case r1 of
                           c # r2 \<Rightarrow>
                             if c = CHR '':''
                             then (let n = takeWhile (\<lambda>x. x \<noteq> CHR '']'') r2;
                                       r3 = dropWhile (\<lambda>x. x \<noteq> CHR '']'') r2
                                   in if n = [] then None
                                      else (case r3 of
                                              d # e # r4 \<Rightarrow>
                                                if d = CHR '']'' \<and> e = CHR '']''
                                                then Some (w, n, r4) else None
                                            | _ \<Rightarrow> None))
                             else None
                         | [] \<Rightarrow> None))
          else None
      | _ \<Rightarrow> None)"

text \<open>\<^verbatim>\<open>/\[\[([^\]:]+)\]\]/\<close> tried at the start of \<open>s\<close>: the group and the text after.\<close>

definition matchUntyped :: "string \<Rightarrow> (string \<times> string) option" where
  "matchUntyped s =
     (case s of
        a # b # r \<Rightarrow>
          if a = CHR ''['' \<and> b = CHR ''[''
          then (let n = takeWhile (\<lambda>x. x \<noteq> CHR '']'' \<and> x \<noteq> CHR '':'') r;
                    r1 = dropWhile (\<lambda>x. x \<noteq> CHR '']'' \<and> x \<noteq> CHR '':'') r
                in if n = [] then None
                   else (case r1 of
                           d # e # r2 \<Rightarrow>
                             if d = CHR '']'' \<and> e = CHR '']'' then Some (n, r2) else None
                         | _ \<Rightarrow> None))
          else None
      | _ \<Rightarrow> None)"

lemma matchTyped_shorter: "matchTyped s = Some (w, n, r) \<Longrightarrow> length r < length s"
proof -
  assume m: "matchTyped s = Some (w, n, r)"
  have d: "length (dropWhile P xs) \<le> length xs" for P and xs :: string
    by (induction xs) auto
  from m obtain t t2 where s: "s = CHR ''['' # CHR ''['' # t"
    and t: "dropWhile isWordChar t = CHR '':'' # t2"
    and t2: "dropWhile (\<lambda>x. x \<noteq> CHR '']'') t2 = CHR '']'' # CHR '']'' # r"
    by (auto simp: matchTyped_def Let_def split: list.splits if_splits)
  have "length r < length t2" using d [of "\<lambda>x. x \<noteq> CHR '']''" t2] t2 by simp
  moreover have "length t2 < length t" using d [of isWordChar t] t by simp
  ultimately show ?thesis using s by simp
qed

lemma matchUntyped_shorter: "matchUntyped s = Some (n, r) \<Longrightarrow> length r < length s"
proof -
  assume m: "matchUntyped s = Some (n, r)"
  have d: "length (dropWhile P xs) \<le> length xs" for P and xs :: string
    by (induction xs) auto
  from m obtain t where s: "s = CHR ''['' # CHR ''['' # t"
    and t: "dropWhile (\<lambda>x. x \<noteq> CHR '']'' \<and> x \<noteq> CHR '':'') t = CHR '']'' # CHR '']'' # r"
    by (auto simp: matchUntyped_def Let_def split: list.splits if_splits)
  have "length r < length t"
    using d [of "\<lambda>x. x \<noteq> CHR '']'' \<and> x \<noteq> CHR '':''" t] t by simp
  then show ?thesis using s by simp
qed

text \<open>
  The \<^verbatim>\<open>while ((match = regex.exec(text)) !== null)\<close> loop of a global regular
  expression: the leftmost match from the current position, then on from its end.
\<close>

function typedMatches :: "string \<Rightarrow> (string \<times> string) list" where
  "typedMatches [] = []"
| "typedMatches (c # s) =
     (case matchTyped (c # s) of
        Some (w, n, r) \<Rightarrow> (w, n) # typedMatches r
      | None \<Rightarrow> typedMatches s)"
  by pat_completeness auto
termination
  by (relation "measure length") (auto dest: matchTyped_shorter)

function untypedMatches :: "string \<Rightarrow> string list" where
  "untypedMatches [] = []"
| "untypedMatches (c # s) =
     (case matchUntyped (c # s) of
        Some (n, r) \<Rightarrow> n # untypedMatches r
      | None \<Rightarrow> untypedMatches s)"
  by pat_completeness auto
termination
  by (relation "measure length") (auto dest: matchUntyped_shorter)

text \<open>One pass of the loop body: the entity is pushed unless its key was seen.\<close>

definition addEntity ::
  "ExtractedEntity list \<times> string set \<Rightarrow> ExtractedEntity \<Rightarrow> ExtractedEntity list \<times> string set" where
  "addEntity acc e =
     (let key = xe_type e @ '':'' @ xe_name e
      in if key \<in> snd acc then acc else (fst acc @ [e], insert key (snd acc)))"

definition typedEntity :: "string \<times> string \<Rightarrow> ExtractedEntity" where
  "typedEntity m = \<lparr>xe_name = toLowerCase (trim (snd m)), xe_type = trim (toLowerCase (fst m))\<rparr>"

definition untypedEntity :: "string \<Rightarrow> ExtractedEntity" where
  "untypedEntity m = \<lparr>xe_name = toLowerCase (trim m), xe_type = ''topic''\<rparr>"

definition extractEntities :: "string \<Rightarrow> ExtractedEntity list" where
  "extractEntities text =
     fst (foldl addEntity
            (foldl addEntity ([], {}) (map typedEntity (typedMatches text)))
            (map untypedEntity (untypedMatches text)))"

section \<open>Store (db/schema.ts)\<close>

text \<open>
  Each table is the list of its rows in insertion order. Integer columns are \<open>int\<close>.
  The timestamp columns other than \<^verbatim>\<open>completedAt\<close>, the JSON payload of an event and
  the \<^verbatim>\<open>embedding\<close> and \<^verbatim>\<open>metadata\<close> blobs are written but never read by the engine
  or the reasoner, and are left out; so are the conversation and message tables.
\<close>

datatype EventType = Touch | Reason | Decide | Discover

record entity =
  ent_id :: string
  ent_name :: string
  ent_normalizedName :: string
  ent_entityType :: "string option"
  ent_description :: "string option"
  ent_touchCount :: int
  ent_trajectoryCount :: int
  ent_contributorCount :: int

record entityContribution =
  con_id :: string
  con_entityId :: string
  con_nearAccountId :: string
  con_firstTrajectoryId :: string
  con_touchCount :: int
  con_trajectoryCount :: int

record edge =
  edge_id :: string
  edge_sourceEntityId :: string
  edge_targetEntityId :: string
  edge_relationshipType :: "string option"
  edge_weight :: int
  edge_trajectoryCount :: int
  edge_contributorCount :: int
  edge_positiveOutcomes :: int
  edge_negativeOutcomes :: int
  edge_mixedOutcomes :: int

record cooccurrence =
  co_id :: string
  co_entityA :: string
  co_entityB :: string
  co_count :: int
  co_windowCount :: int
  co_trajectoryCount :: int
  co_contributorCount :: int

record trajectory =
  tr_id :: string
  tr_nearAccountId :: string
  tr_conversationId :: "string option"
  tr_inputText :: string
  tr_inputHash :: int
  tr_summary :: "string option"
  tr_completedAt :: "nat option"

record event =
  ev_id :: string
  ev_trajectoryId :: string
  ev_sequenceNum :: int
  ev_eventType :: EventType
  ev_entityId :: "string option"

record store =
  entities :: "entity list"
  contributions :: "entityContribution list"
  edges :: "edge list"
  cooccurrences :: "cooccurrence list"
  trajectories :: "trajectory list"
  events :: "event list"

definition emptyStore :: store where
  "emptyStore = \<lparr>entities = [], contributions = [], edges = [], cooccurrences = [],
     trajectories = [], events = []\<rparr>"

text \<open>JavaScript truthiness of an optional string: neither absent nor empty.\<close>

definition truthy :: "string option \<Rightarrow> bool" where
  "truthy v = (case v of None \<Rightarrow> False | Some s \<Rightarrow> s \<noteq> [])"

text \<open>\<^verbatim>\<open>[...new Set(xs)]\<close>: the first occurrence of every element, in order.\<close>

definition unique :: "'a list \<Rightarrow> 'a list" where
  "unique xs = foldl (\<lambda>acc x. if x \<in> set acc then acc else acc @ [x]) [] xs"

section \<open>Trajectory engine (trajectory.ts)\<close>

text \<open>
  The engine is its database, its in-memory \<^verbatim>\<open>sequenceCounters\<close> map and the source
  of the identifiers \<^verbatim>\<open>nanoid()\<close> returns: the \<open>n\<close>-th call returns \<open>idSource n\<close>.
\<close>

record engine =
  db :: store
  sequenceCounters :: "string \<Rightarrow> int option"
  idSource :: "nat \<Rightarrow> string"
  idsUsed :: nat

definition nanoid :: "engine \<Rightarrow> string \<times> engine" where
  "nanoid eng = (idSource eng (idsUsed eng), eng\<lparr>idsUsed := idsUsed eng + 1\<rparr>)"

text \<open>
  The rolling hash: \<^verbatim>\<open>hash & hash\<close> brings the value back to a signed 32-bit integer
  after every character. The stored text is its hexadecimal rendering; the model keeps
  the number.
\<close>

definition hashInput :: "string \<Rightarrow> int" where
  "hashInput input =
     sint (foldl (\<lambda>hash c. push_bit 5 hash - hash + of_nat (of_char c)) (0 :: 32 word) input)"

definition startTrajectory ::
  "engine \<Rightarrow> string \<Rightarrow> string \<Rightarrow> string option \<Rightarrow> string \<times> engine" where
  "startTrajectory eng nearAccountId inputText conversationId =
     (let (id, eng1) = nanoid eng;
          row = \<lparr>tr_id = id, tr_nearAccountId = nearAccountId,
                 tr_conversationId = conversationId, tr_inputText = inputText,
                 tr_inputHash = hashInput inputText, tr_summary = None,
                 tr_completedAt = None\<rparr>;
          eng2 = eng1\<lparr>db := (db eng1)\<lparr>trajectories := trajectories (db eng1) @ [row]\<rparr>\<rparr>
      in (id, eng2\<lparr>sequenceCounters := (sequenceCounters eng2)(id \<mapsto> 0)\<rparr>))"

record TrajectoryEvent =
  te_type :: EventType
  te_entityId :: "string option"

definition logEvent :: "engine \<Rightarrow> string \<Rightarrow> TrajectoryEvent \<Rightarrow> string \<times> engine" where
  "logEvent eng trajectoryId ev =
     (let (id, eng1) = nanoid eng;
          sequenceNum = (case sequenceCounters eng1 trajectoryId of Some n \<Rightarrow> n | None \<Rightarrow> 0);
          eng2 = eng1\<lparr>sequenceCounters := (sequenceCounters eng1)(trajectoryId \<mapsto> sequenceNum + 1)\<rparr>;
          row = \<lparr>ev_id = id, ev_trajectoryId = trajectoryId, ev_sequenceNum = sequenceNum,
                 ev_eventType = te_type ev, ev_entityId = te_entityId ev\<rparr>;
          eng3 = eng2\<lparr>db := (db eng2)\<lparr>events := events (db eng2) @ [row]\<rparr>\<rparr>;
          eng4 = (if te_type ev = Touch \<and> truthy (te_entityId ev)
                  then eng3\<lparr>db := (db eng3)\<lparr>entities :=
                         map (\<lambda>e. if Some (ent_id e) = te_entityId ev
                                   then e\<lparr>ent_touchCount := ent_touchCount e + 1\<rparr> else e)
                             (entities (db eng3))\<rparr>\<rparr>
                  else eng3)
      in (id, eng4))"

definition trackContribution :: "engine \<Rightarrow> string \<Rightarrow> string \<Rightarrow> string \<Rightarrow> engine" where
  "trackContribution eng entityId nearAccountId trajectoryId =
     (case find (\<lambda>c. con_entityId c = entityId \<and> con_nearAccountId c = nearAccountId)
             (contributions (db eng)) of
        Some existing \<Rightarrow>
          eng\<lparr>db := (db eng)\<lparr>contributions :=
                 map (\<lambda>c. if con_id c = con_id existing
                           then c\<lparr>con_touchCount := con_touchCount existing + 1\<rparr> else c)
                     (contributions (db eng))\<rparr>\<rparr>
      | None \<Rightarrow>
          (let (id, eng1) = nanoid eng;
               row = \<lparr>con_id = id, con_entityId = entityId, con_nearAccountId = nearAccountId,
                      con_firstTrajectoryId = trajectoryId, con_touchCount = 1,
                      con_trajectoryCount = 1\<rparr>;
               eng2 = eng1\<lparr>db := (db eng1)\<lparr>contributions := contributions (db eng1) @ [row]\<rparr>\<rparr>
           in eng2\<lparr>db := (db eng2)\<lparr>entities :=
                    map (\<lambda>e. if ent_id e = entityId
                              then e\<lparr>ent_contributorCount := ent_contributorCount e + 1\<rparr> else e)
                        (entities (db eng2))\<rparr>\<rparr>))"

definition findOrCreateEntity ::
  "engine \<Rightarrow> string \<Rightarrow> string \<Rightarrow> string \<Rightarrow> string option \<Rightarrow> string option \<Rightarrow> string \<times> engine" where
  "findOrCreateEntity eng nearAccountId trajectoryId name entityType description =
     (let normalizedName = trim (toLowerCase name)
      in case find (\<lambda>e. ent_normalizedName e = normalizedName) (entities (db eng)) of
           Some existing \<Rightarrow>
             (let entityId = ent_id existing;
                  eng1 = eng\<lparr>db := (db eng)\<lparr>entities :=
                           map (\<lambda>e. if ent_id e = entityId
                                     then e\<lparr>ent_touchCount := ent_touchCount e + 1,
                                            ent_entityType :=
                                              (if truthy entityType \<and> \<not> truthy (ent_entityType existing)
                                               then entityType else ent_entityType e),
                                            ent_description :=
                                              (if truthy description \<and> \<not> truthy (ent_description existing)
                                               then description else ent_description e)\<rparr>
                                     else e)
                               (entities (db eng))\<rparr>\<rparr>
              in (entityId, trackContribution eng1 entityId nearAccountId trajectoryId))
         | None \<Rightarrow>
             (let (entityId, eng1) = nanoid eng;
                  row = \<lparr>ent_id = entityId, ent_name = name, ent_normalizedName = normalizedName,
                         ent_entityType = entityType, ent_description = description,
                         ent_touchCount = 1, ent_trajectoryCount = 1, ent_contributorCount = 1\<rparr>;
                  eng2 = eng1\<lparr>db := (db eng1)\<lparr>entities := entities (db eng1) @ [row]\<rparr>\<rparr>
              in (entityId, trackContribution eng2 entityId nearAccountId trajectoryId)))"

subsection \<open>Completing a trajectory\<close>

text \<open>One pass of the inner loop of \<^verbatim>\<open>updateCooccurrences\<close>, for the pair \<open>(idI, idJ)\<close>.\<close>

definition cooccurrenceStep :: "store \<Rightarrow> string \<times> string \<Rightarrow> store" where
  "cooccurrenceStep st p =
     (let idI = fst p; idJ = snd p
      in if idI = [] \<or> idJ = [] then st
         else (let entityA = (if idI \<le> idJ then idI else idJ);
                   entityB = (if idI \<le> idJ then idJ else idI);
                   coocId = entityA @ '':'' @ entityB
               in case find (\<lambda>c. co_id c = coocId) (cooccurrences st) of
                    Some existing \<Rightarrow>
                      st\<lparr>cooccurrences :=
                           map (\<lambda>c. if co_id c = coocId
                                     then c\<lparr>co_count := co_count existing + 1,
                                            co_windowCount := co_windowCount existing + 1,
                                            co_trajectoryCount := co_trajectoryCount existing + 1\<rparr>
                                     else c)
                               (cooccurrences st)\<rparr>
                  | None \<Rightarrow>
                      st\<lparr>cooccurrences := cooccurrences st @
                           [\<lparr>co_id = coocId, co_entityA = entityA, co_entityB = entityB,
                             co_count = 1, co_windowCount = 1, co_trajectoryCount = 1,
                             co_contributorCount = 1\<rparr>]\<rparr>))"

text \<open>The index pairs \<open>i < j\<close> in the order the two nested loops visit them.\<close>

fun pairsOf :: "'a list \<Rightarrow> ('a \<times> 'a) list" where
  "pairsOf [] = []"
| "pairsOf (x # xs) = map (Pair x) xs @ pairsOf xs"

definition updateCooccurrences :: "store \<Rightarrow> string list \<Rightarrow> store" where
  "updateCooccurrences st entityIds =
     (if length entityIds < 2 then st else foldl cooccurrenceStep st (pairsOf entityIds))"

record EntityInfo =
  ei_id :: string
  ei_name :: string
  ei_entityType :: "string option"
  ei_description :: "string option"
  ei_touchCount :: int

record EdgeInfo =
  gi_id :: string
  gi_sourceEntityId :: string
  gi_targetEntityId :: string
  gi_relationshipType :: "string option"
  gi_weight :: int

text \<open>One pass of the loop of \<^verbatim>\<open>strengthenEdges\<close>, for \<open>(entityIds[i], entityIds[i + 1])\<close>.\<close>

definition strengthenStep :: "EdgeInfo list \<times> store \<Rightarrow> string \<times> string \<Rightarrow> EdgeInfo list \<times> store" where
  "strengthenStep acc p =
     (let edgesAcc = fst acc; st = snd acc; sourceId = fst p; targetId = snd p
      in if sourceId = [] \<or> targetId = [] \<or> sourceId = targetId then acc
         else (let edgeId = sourceId @ '':'' @ targetId
               in case find (\<lambda>e. edge_id e = edgeId) (edges st) of
                    Some existing \<Rightarrow>
                      (edgesAcc @
                         [\<lparr>gi_id = edge_id existing,
                           gi_sourceEntityId = edge_sourceEntityId existing,
                           gi_targetEntityId = edge_targetEntityId existing,
                           gi_relationshipType = edge_relationshipType existing,
                           gi_weight = edge_weight existing + 1\<rparr>],
                       st\<lparr>edges :=
                            map (\<lambda>e. if edge_id e = edgeId
                                      then e\<lparr>edge_weight := edge_weight existing + 1,
                                             edge_trajectoryCount := edge_trajectoryCount existing + 1\<rparr>
                                      else e)
                                (edges st)\<rparr>)
                  | None \<Rightarrow>
                      (edgesAcc @
                         [\<lparr>gi_id = edgeId, gi_sourceEntityId = sourceId,
                           gi_targetEntityId = targetId, gi_relationshipType = None,
                           gi_weight = 1\<rparr>],
                       st\<lparr>edges := edges st @
                            [\<lparr>edge_id = edgeId, edge_sourceEntityId = sourceId,
                              edge_targetEntityId = targetId, edge_relationshipType = None,
                              edge_weight = 1, edge_trajectoryCount = 1,
                              edge_contributorCount = 1, edge_positiveOutcomes = 0,
                              edge_negativeOutcomes = 0, edge_mixedOutcomes = 0\<rparr>]\<rparr>)))"

definition strengthenEdges :: "store \<Rightarrow> string list \<Rightarrow> EdgeInfo list \<times> store" where
  "strengthenEdges st entityIds =
     (if length entityIds < 2 then ([], st)
      else foldl strengthenStep ([], st) (zip entityIds (tl entityIds)))"

text \<open>One pass of the inner loop of \<^verbatim>\<open>trackOutcomes\<close>, for one strategy and one outcome.\<close>

definition outcomeStep :: "entity \<Rightarrow> store \<Rightarrow> entity \<Rightarrow> store" where
  "outcomeStep strategy st outcome =
     (let edgeId = ent_id strategy @ '':'' @ ent_id outcome
      in case find (\<lambda>e. edge_id e = edgeId) (edges st) of
           Some existing \<Rightarrow>
             st\<lparr>edges :=
                  map (\<lambda>e. if edge_id e = edgeId
                            then e\<lparr>edge_weight := edge_weight existing + 1,
                                   edge_trajectoryCount := edge_trajectoryCount existing + 1\<rparr>
                            else e)
                      (edges st)\<rparr>
         | None \<Rightarrow>
             st\<lparr>edges := edges st @
                  [\<lparr>edge_id = edgeId, edge_sourceEntityId = ent_id strategy,
                    edge_targetEntityId = ent_id outcome,
                    edge_relationshipType = Some ''leads_to'',
                    edge_weight = 1, edge_trajectoryCount = 1, edge_contributorCount = 1,
                    edge_positiveOutcomes = 0, edge_negativeOutcomes = 0,
                    edge_mixedOutcomes = 0\<rparr>]\<rparr>)"

definition trackOutcomes :: "store \<Rightarrow> string list \<Rightarrow> store" where
  "trackOutcomes st entityIds =
     (if entityIds = [] then st
      else (let ents = filter (\<lambda>e. ent_id e \<in> set entityIds) (entities st);
                outcomes = filter (\<lambda>e. ent_entityType e = Some ''outcome'') ents;
                strategies = filter (\<lambda>e. ent_entityType e = Some ''strategy'') ents
            in if outcomes = [] \<or> strategies = [] then st
               else foldl (\<lambda>st1 strategy. foldl (outcomeStep strategy) st1 outcomes) st strategies))"

record TrajectoryResult =
  entitiesDiscovered :: "EntityInfo list"
  entitiesTouched :: "EntityInfo list"
  edgesTraversed :: "EdgeInfo list"

definition entityInfo :: "entity \<Rightarrow> EntityInfo" where
  "entityInfo e = \<lparr>ei_id = ent_id e, ei_name = ent_name e, ei_entityType = ent_entityType e,
     ei_description = ent_description e, ei_touchCount = ent_touchCount e\<rparr>"

text \<open>
  \<^verbatim>\<open>ids.map((id) => entityMap.get(id)).filter((e) => e !== undefined).map(...)\<close>, where
  \<^verbatim>\<open>entityMap\<close> is built from the selected rows (a later row with the same id wins).
\<close>

definition entityInfos :: "entity list \<Rightarrow> string list \<Rightarrow> EntityInfo list" where
  "entityInfos ents ids =
     concat (map (\<lambda>i. case find (\<lambda>e. ent_id e = i) (rev ents) of
                         Some e \<Rightarrow> [entityInfo e] | None \<Rightarrow> []) ids)"

text \<open>The entity ids of the events of one type, for the events of a trajectory in
  \<^verbatim>\<open>sequenceNum\<close> order.\<close>

definition trajectoryEvents :: "store \<Rightarrow> string \<Rightarrow> event list" where
  "trajectoryEvents st trajectoryId =
     sort_key ev_sequenceNum (filter (\<lambda>e. ev_trajectoryId e = trajectoryId) (events st))"

definition entityIdsOf :: "EventType \<Rightarrow> event list \<Rightarrow> string list" where
  "entityIdsOf ty evs =
     unique (map (\<lambda>e. the (ev_entityId e))
               (filter (\<lambda>e. ev_eventType e = ty \<and> truthy (ev_entityId e)) evs))"

text \<open>The three updates at the start of \<^verbatim>\<open>completeTrajectory\<close>, one definition each.\<close>

definition markComplete :: "store \<Rightarrow> string \<Rightarrow> string option \<Rightarrow> nat \<Rightarrow> store" where
  "markComplete st trajectoryId summary now =
     st\<lparr>trajectories :=
          map (\<lambda>t. if tr_id t = trajectoryId
                    then t\<lparr>tr_completedAt := Some now, tr_summary := summary\<rparr> else t)
              (trajectories st)\<rparr>"

definition countOnEntities :: "store \<Rightarrow> string list \<Rightarrow> store" where
  "countOnEntities st allEntityIds =
     (if allEntityIds \<noteq> []
      then st\<lparr>entities :=
             map (\<lambda>e. if ent_id e \<in> set allEntityIds
                       then e\<lparr>ent_trajectoryCount := ent_trajectoryCount e + 1\<rparr> else e)
                 (entities st)\<rparr>
      else st)"

definition countOnContributions :: "store \<Rightarrow> string \<Rightarrow> string list \<Rightarrow> store" where
  "countOnContributions st nearAccountId allEntityIds =
     foldl (\<lambda>st1 entityId.
              st1\<lparr>contributions :=
                    map (\<lambda>c. if con_entityId c = entityId \<and> con_nearAccountId c = nearAccountId
                              then c\<lparr>con_trajectoryCount := con_trajectoryCount c + 1\<rparr>
                              else c)
                        (contributions st1)\<rparr>)
           st allEntityIds"

definition completeTrajectory ::
  "engine \<Rightarrow> string \<Rightarrow> string \<Rightarrow> string option \<Rightarrow> nat \<Rightarrow> TrajectoryResult \<times> engine" where
  "completeTrajectory eng trajectoryId nearAccountId summary now =
     (let st1 = markComplete (db eng) trajectoryId summary now;
          evs = trajectoryEvents st1 trajectoryId;
          touchedEntityIds = entityIdsOf Touch evs;
          discoveredEntityIds = entityIdsOf Discover evs;
          allEntityIds = unique (touchedEntityIds @ discoveredEntityIds);
          st2 = countOnEntities st1 allEntityIds;
          st3 = countOnContributions st2 nearAccountId allEntityIds;
          st4 = updateCooccurrences st3 allEntityIds;
          (traversed, st5) = strengthenEdges st4 touchedEntityIds;
          st6 = trackOutcomes st5 allEntityIds;
          ents = (if allEntityIds \<noteq> []
                  then filter (\<lambda>e. ent_id e \<in> set allEntityIds) (entities st6) else [])
      in (\<lparr>entitiesDiscovered = entityInfos ents discoveredEntityIds,
            entitiesTouched = entityInfos ents touchedEntityIds,
            edgesTraversed = traversed\<rparr>,
          eng\<lparr>db := st6, sequenceCounters := (sequenceCounters eng)(trajectoryId := None)\<rparr>))"

section \<open>Agent (agent.ts, processMessage)\<close>

text \<open>
  The steps of one chat turn that write the graph. The reply of the language model is
  an input (\<open>responseContent\<close>). The simulation, the conversation history and the
  prompt only feed the request to the language model and the payload of events; the
  conversation and message rows are not kept, but the identifiers drawn for them are.
\<close>

definition touchStep ::
  "string \<Rightarrow> string \<Rightarrow> string list \<times> engine \<Rightarrow> ExtractedEntity \<Rightarrow> string list \<times> engine" where
  "touchStep nearAccountId trajectoryId acc ent =
     (let (entityId, eng1) =
            findOrCreateEntity (snd acc) nearAccountId trajectoryId (xe_name ent)
              (Some (xe_type ent)) None;
          (evId, eng2) = logEvent eng1 trajectoryId \<lparr>te_type = Touch, te_entityId = Some entityId\<rparr>
      in (fst acc @ [entityId], eng2))"

definition respondStep ::
  "string \<Rightarrow> string \<Rightarrow> string list \<Rightarrow> string list \<times> engine \<Rightarrow> ExtractedEntity \<Rightarrow> string list \<times> engine" where
  "respondStep nearAccountId trajectoryId touchedIds acc ent =
     (let (entityId, eng1) =
            findOrCreateEntity (snd acc) nearAccountId trajectoryId (xe_name ent)
              (Some (xe_type ent)) None
      in if entityId \<notin> set touchedIds
         then (let (evId, eng2) =
                     logEvent eng1 trajectoryId \<lparr>te_type = Discover, te_entityId = Some entityId\<rparr>
               in (fst acc @ [entityId], eng2))
         else (let (evId, eng2) =
                     logEvent eng1 trajectoryId \<lparr>te_type = Touch, te_entityId = Some entityId\<rparr>
               in (fst acc, eng2)))"

text \<open>Steps 1 to 12 of \<^verbatim>\<open>processMessage\<close>: everything before the trajectory is completed.\<close>

definition logTurn ::
  "engine \<Rightarrow> string \<Rightarrow> string \<Rightarrow> string option \<Rightarrow> string \<Rightarrow> string \<times> engine" where
  "logTurn eng nearAccountId message conversationId responseContent =
     (let (convId, eng0) = (case conversationId of Some c \<Rightarrow> (c, eng) | None \<Rightarrow> nanoid eng);
          (trajectoryId, eng1) = startTrajectory eng0 nearAccountId message (Some convId);
          (userMessageId, eng2) = nanoid eng1;
          mentionedEntities = extractEntities message;
          (touched, eng3) = foldl (touchStep nearAccountId trajectoryId) ([], eng2) mentionedEntities;
          (reasonId, eng4) = logEvent eng3 trajectoryId \<lparr>te_type = Reason, te_entityId = None\<rparr>;
          responseEntities = extractEntities responseContent;
          (discovered, eng5) =
            foldl (respondStep nearAccountId trajectoryId touched) ([], eng4) responseEntities;
          (decideId, eng6) = logEvent eng5 trajectoryId \<lparr>te_type = Decide, te_entityId = None\<rparr>
      in (trajectoryId, eng6))"

text \<open>Steps 13 and 14: the trajectory is completed and the reply stored.\<close>

definition processMessage ::
  "engine \<Rightarrow> string \<Rightarrow> string \<Rightarrow> string option \<Rightarrow> string \<Rightarrow> nat \<Rightarrow> (string \<times> TrajectoryResult) \<times> engine" where
  "processMessage eng nearAccountId message conversationId responseContent now =
     (let (trajectoryId, eng6) = logTurn eng nearAccountId message conversationId responseContent;
          (trajectoryResult, eng7) =
            completeTrajectory eng6 trajectoryId nearAccountId
              (Some (''Response to: '' @ take 50 message @ ''...'')) now;
          (assistantMessageId, eng8) = nanoid eng7
      in ((trajectoryId, trajectoryResult), eng8))"

section \<open>Graph reasoner (graph-reasoner.ts)\<close>

text \<open>
  JavaScript numbers that hold probabilities are modelled as real numbers, and a query
  returns its rows in table order, stably sorted by its \<^verbatim>\<open>ORDER BY\<close> column.
\<close>

record EntityInput =
  in_name :: string
  in_type :: "string option"

record ResolvedEntity =
  re_id :: string
  re_name :: string
  re_entityType :: "string option"
  re_touchCount :: int
  re_trajectoryCount :: int
  re_contributorCount :: int

record OutcomeEvidence =
  oe_edgeWeight :: int
  oe_positiveCount :: int
  oe_negativeCount :: int
  oe_mixedCount :: int
  oe_contributorCount :: int

record OutcomeProjection =
  op_outcome :: string
  op_outcomeId :: string
  op_probability :: real
  op_evidence :: OutcomeEvidence

datatype Effect = Improves | Reduces | Mixed

record Differentiator =
  df_entity :: ResolvedEntity
  df_role :: "string option"
  df_effect :: Effect
  df_magnitude :: real
  df_cooccurrenceStrength :: int
  df_withPositiveRate :: real
  df_withTotalWeight :: int

record SimulationResult =
  sim_resolved :: "ResolvedEntity list"
  sim_unresolved :: "string list"
  sim_outcomes :: "OutcomeProjection list"
  sim_differentiators :: "Differentiator list"
  sim_totalObservations :: int
  sim_outcomeCount :: nat
  sim_hasPatterns :: bool

text \<open>
  SQLite's \<^verbatim>\<open>LIKE\<close>: \<^verbatim>\<open>%\<close> stands for any run of characters, \<^verbatim>\<open>_\<close> for any one
  character, and ASCII letters match without regard to case.
\<close>

definition asciiLower :: "char \<Rightarrow> char" where
  "asciiLower c =
     (let n = (of_char c :: nat) in if 65 \<le> n \<and> n \<le> 90 then char_of (n + 32) else c)"

fun sqlLike :: "string \<Rightarrow> string \<Rightarrow> bool" where
  "sqlLike [] s = (s = [])"
| "sqlLike (p # ps) s =
     (if p = CHR ''%''
      then (sqlLike ps s \<or> (case s of [] \<Rightarrow> False | c # s' \<Rightarrow> sqlLike (p # ps) s'))
      else (case s of
              [] \<Rightarrow> False
            | c # s' \<Rightarrow> (p = CHR ''_'' \<or> asciiLower p = asciiLower c) \<and> sqlLike ps s'))"

definition resolvedEntity :: "entity \<Rightarrow> ResolvedEntity" where
  "resolvedEntity e = \<lparr>re_id = ent_id e, re_name = ent_name e, re_entityType = ent_entityType e,
     re_touchCount = ent_touchCount e, re_trajectoryCount = ent_trajectoryCount e,
     re_contributorCount = ent_contributorCount e\<rparr>"

text \<open>The entity one input resolves to: the exact match, else the most touched partial match.\<close>

definition resolveOne :: "store \<Rightarrow> EntityInput \<Rightarrow> entity option" where
  "resolveOne st input =
     (let normalized = trim (toLowerCase (in_name input));
          typeOk = (\<lambda>e. if truthy (in_type input) then ent_entityType e = in_type input else True)
      in case find (\<lambda>e. ent_normalizedName e = normalized \<and> typeOk e) (entities st) of
           Some e \<Rightarrow> Some e
         | None \<Rightarrow>
             (case sort_key (\<lambda>e. - ent_touchCount e)
                     (filter (\<lambda>e. sqlLike (''%'' @ normalized @ ''%'') (ent_normalizedName e) \<and> typeOk e)
                        (entities st)) of
                [] \<Rightarrow> None
              | e # rest \<Rightarrow> Some e))"

definition resolveEntities :: "store \<Rightarrow> EntityInput list \<Rightarrow> ResolvedEntity list \<times> string list" where
  "resolveEntities st inputs =
     foldl (\<lambda>acc input. case resolveOne st input of
                           Some e \<Rightarrow> (fst acc @ [resolvedEntity e], snd acc)
                         | None \<Rightarrow> (fst acc, snd acc @ [in_name input]))
           ([], []) inputs"

record OutcomeAcc =
  om_outcome :: entity
  om_totalWeight :: int
  om_positiveCount :: int
  om_negativeCount :: int
  om_mixedCount :: int
  om_contributorCount :: int

text \<open>One pass of the merging loop over \<^verbatim>\<open>allEdges\<close>; the \<^verbatim>\<open>Map\<close> keeps insertion order.\<close>

definition mergeOutcome :: "(string \<times> OutcomeAcc) list \<Rightarrow> edge \<times> entity \<Rightarrow> (string \<times> OutcomeAcc) list" where
  "mergeOutcome outcomeMap row =
     (let e = fst row; outcome = snd row
      in case map_of outcomeMap (ent_id outcome) of
           Some existing \<Rightarrow>
             map (\<lambda>kv. if fst kv = ent_id outcome
                        then (fst kv,
                              existing\<lparr>om_totalWeight := om_totalWeight existing + edge_weight e,
                                       om_positiveCount := om_positiveCount existing + edge_positiveOutcomes e,
                                       om_negativeCount := om_negativeCount existing + edge_negativeOutcomes e,
                                       om_mixedCount := om_mixedCount existing + edge_mixedOutcomes e,
                                       om_contributorCount :=
                                         max (om_contributorCount existing) (edge_contributorCount e)\<rparr>)
                        else kv)
                 outcomeMap
         | None \<Rightarrow>
             outcomeMap @
               [(ent_id outcome,
                 \<lparr>om_outcome = outcome, om_totalWeight = edge_weight e,
                  om_positiveCount = edge_positiveOutcomes e,
                  om_negativeCount = edge_negativeOutcomes e,
                  om_mixedCount = edge_mixedOutcomes e,
                  om_contributorCount = edge_contributorCount e\<rparr>)])"

definition projection :: "int \<Rightarrow> string \<times> OutcomeAcc \<Rightarrow> OutcomeProjection" where
  "projection totalWeight kv =
     \<lparr>op_outcome = ent_name (om_outcome (snd kv)), op_outcomeId = fst kv,
      op_probability =
        (if totalWeight > 0 then real_of_int (om_totalWeight (snd kv)) / real_of_int totalWeight
         else 0),
      op_evidence =
        \<lparr>oe_edgeWeight = om_totalWeight (snd kv), oe_positiveCount = om_positiveCount (snd kv),
         oe_negativeCount = om_negativeCount (snd kv), oe_mixedCount = om_mixedCount (snd kv),
         oe_contributorCount = om_contributorCount (snd kv)\<rparr>\<rparr>"

definition projectOutcomesFromEdges :: "store \<Rightarrow> string list \<Rightarrow> OutcomeProjection list" where
  "projectOutcomesFromEdges st inputEntityIds =
     (let outcomeEdges =
            sort_key (\<lambda>row. - edge_weight (fst row))
              [(e, outcome). e \<leftarrow> edges st, outcome \<leftarrow> entities st,
                 edge_targetEntityId e = ent_id outcome \<and>
                 edge_sourceEntityId e \<in> set inputEntityIds \<and>
                 ent_entityType outcome = Some ''outcome'']
      in if outcomeEdges = [] then []
         else (let reverseEdges =
                     [(e, outcome). e \<leftarrow> edges st, outcome \<leftarrow> entities st,
                        edge_sourceEntityId e = ent_id outcome \<and>
                        edge_targetEntityId e \<in> set inputEntityIds \<and>
                        ent_entityType outcome = Some ''outcome''];
                   allEdges = outcomeEdges @ reverseEdges;
                   outcomeMap = foldl mergeOutcome [] allEdges;
                   totalWeight = sum_list (map (\<lambda>kv. om_totalWeight (snd kv)) outcomeMap)
               in sort_key (\<lambda>p. - op_probability p) (map (projection totalWeight) outcomeMap)))"

record OutcomeEdge =
  oed_outcomeId :: string
  oed_outcomeName :: string
  oed_weight :: int
  oed_positiveCount :: int
  oed_negativeCount :: int

definition getOutcomeEdgesForEntity :: "store \<Rightarrow> string \<Rightarrow> OutcomeEdge list" where
  "getOutcomeEdgesForEntity st entityId =
     map (\<lambda>row. \<lparr>oed_outcomeId = ent_id (snd row), oed_outcomeName = ent_name (snd row),
                  oed_weight = edge_weight (fst row),
                  oed_positiveCount = edge_positiveOutcomes (fst row),
                  oed_negativeCount = edge_negativeOutcomes (fst row)\<rparr>)
       [(e, outcome). e \<leftarrow> edges st, outcome \<leftarrow> entities st,
          edge_targetEntityId e = ent_id outcome \<and> edge_sourceEntityId e = entityId \<and>
          ent_entityType outcome = Some ''outcome'']"

record OutcomeShift =
  os_effect :: Effect
  os_magnitude :: real
  os_positiveRate :: real
  os_totalWeight :: int

definition computeOutcomeShift :: "OutcomeEdge list \<Rightarrow> OutcomeShift" where
  "computeOutcomeShift outcomeEdges =
     (let totalWeight = sum_list (map oed_weight outcomeEdges);
          totalPositive = sum_list (map oed_positiveCount outcomeEdges);
          totalNegative = sum_list (map oed_negativeCount outcomeEdges);
          totalOutcomes = totalPositive + totalNegative;
          positiveRate = (if totalOutcomes > 0
                          then real_of_int totalPositive / real_of_int totalOutcomes else 1 / 2);
          baselineRate = (1 / 2 :: real);
          magnitude = \<bar>positiveRate - baselineRate\<bar>;
          effect = (if positiveRate > baselineRate + 1 / 10 then Improves
                    else if positiveRate < baselineRate - 1 / 10 then Reduces
                    else Mixed)
      in \<lparr>os_effect = effect, os_magnitude = magnitude, os_positiveRate = positiveRate,
           os_totalWeight = totalWeight\<rparr>)"

definition differentiatorOf :: "store \<Rightarrow> string list \<Rightarrow> cooccurrence \<times> entity \<Rightarrow> Differentiator list" where
  "differentiatorOf st inputEntityIds row =
     (let cooc = fst row; ent = snd row
      in if ent_id ent \<in> set inputEntityIds then []
         else (let outcomeShift = computeOutcomeShift (getOutcomeEdgesForEntity st (ent_id ent))
               in if \<bar>os_magnitude outcomeShift\<bar> > 1 / 10
                  then [\<lparr>df_entity = resolvedEntity ent, df_role = ent_entityType ent,
                         df_effect = os_effect outcomeShift,
                         df_magnitude = os_magnitude outcomeShift,
                         df_cooccurrenceStrength = co_count cooc,
                         df_withPositiveRate = os_positiveRate outcomeShift,
                         df_withTotalWeight = os_totalWeight outcomeShift\<rparr>]
                  else []))"

definition findDifferentiatorsFromStructure :: "store \<Rightarrow> string list \<Rightarrow> Differentiator list" where
  "findDifferentiatorsFromStructure st inputEntityIds =
     (let cooccurrenceRows =
            sort_key (\<lambda>row. - co_count (fst row))
              [(c, ent). c \<leftarrow> cooccurrences st, ent \<leftarrow> entities st,
                 (co_entityB c = ent_id ent \<or> co_entityA c = ent_id ent) \<and>
                 (co_entityA c \<in> set inputEntityIds \<or> co_entityB c \<in> set inputEntityIds) \<and>
                 ent_entityType ent \<in> {Some ''context'', Some ''constraint'', Some ''strategy''}];
          candidateEntities =
            take 20 (filter (\<lambda>row. ent_id (snd row) \<notin> set inputEntityIds) cooccurrenceRows);
          differentiators = concat (map (differentiatorOf st inputEntityIds) candidateEntities)
      in take 5 (sort_key (\<lambda>d. - df_magnitude d) differentiators))"

definition emptyResult :: "string list \<Rightarrow> SimulationResult" where
  "emptyResult unresolved =
     \<lparr>sim_resolved = [], sim_unresolved = unresolved, sim_outcomes = [],
      sim_differentiators = [], sim_totalObservations = 0, sim_outcomeCount = 0,
      sim_hasPatterns = False\<rparr>"

definition simulate :: "store \<Rightarrow> EntityInput list \<Rightarrow> SimulationResult" where
  "simulate st inputs =
     (let (resolved, unresolved) = resolveEntities st inputs
      in if resolved = [] then emptyResult unresolved
         else (let entityIds = map re_id resolved;
                   outcomes = projectOutcomesFromEdges st entityIds;
                   differentiators = findDifferentiatorsFromStructure st entityIds;
                   totalObservations = sum_list (map (\<lambda>p. oe_edgeWeight (op_evidence p)) outcomes)
               in \<lparr>sim_resolved = resolved, sim_unresolved = unresolved,
                    sim_outcomes = outcomes, sim_differentiators = differentiators,
                    sim_totalObservations = totalObservations,
                    sim_outcomeCount = length outcomes,
                    sim_hasPatterns = (length outcomes > 0 \<or> length differentiators > 0)\<rparr>))"

subsection \<open>Counterfactual\<close>

record Change =
  ch_from :: EntityInput
  ch_to :: EntityInput

text \<open>The alternative inputs \<^verbatim>\<open>counterfactual\<close> builds before it simulates them.\<close>

definition alternativeInputs :: "EntityInput list \<Rightarrow> Change \<Rightarrow> EntityInput list" where
  "alternativeInputs baseInputs change =
     (let mapped =
            map (\<lambda>input.
                   if toLowerCase (in_name input) = toLowerCase (in_name (ch_from change)) \<and>
                      (\<not> truthy (in_type (ch_from change)) \<or> in_type input = in_type (ch_from change))
                   then ch_to change else input)
                baseInputs;
          swapped = list_ex (\<lambda>pr. in_name (fst pr) \<noteq> in_name (snd pr)) (zip mapped baseInputs)
      in if \<not> swapped
         then filter (\<lambda>input. toLowerCase (in_name input) \<noteq> toLowerCase (in_name (ch_from change)))
                baseInputs @ [ch_to change]
         else mapped)"

datatype NetEffect = Positive | Negative | Neutral | Uncertain

record OutcomeDelta =
  od_outcome :: string
  od_originalProbability :: real
  od_alternativeProbability :: real
  od_delta :: real

fun includesStr :: "string \<Rightarrow> string \<Rightarrow> bool" where
  "includesStr [] p = (p = [])"
| "includesStr (c # s) p = (prefix p (c # s) \<or> includesStr s p)"

definition probabilityOf :: "OutcomeProjection list \<Rightarrow> string \<Rightarrow> real" where
  "probabilityOf outcomes outcome =
     (case find (\<lambda>q. op_outcome q = outcome) outcomes of
        Some q \<Rightarrow> op_probability q | None \<Rightarrow> 0)"

text \<open>\<^verbatim>\<open>compareOutcomes\<close> without the recommendation text it also builds.\<close>

definition compareOutcomes :: "SimulationResult \<Rightarrow> SimulationResult \<Rightarrow> OutcomeDelta list \<times> NetEffect" where
  "compareOutcomes original alternative =
     (let allOutcomes =
            unique (map op_outcome (sim_outcomes original) @ map op_outcome (sim_outcomes alternative));
          outcomeShifts =
            sort_key (\<lambda>d. - \<bar>od_delta d\<bar>)
              (map (\<lambda>outcome.
                      (let origProb = probabilityOf (sim_outcomes original) outcome;
                           altProb = probabilityOf (sim_outcomes alternative) outcome
                       in \<lparr>od_outcome = outcome, od_originalProbability = origProb,
                            od_alternativeProbability = altProb, od_delta = altProb - origProb\<rparr>))
                 allOutcomes);
          positiveOutcomes = [''improved'', ''success'', ''understanding'', ''mastery'', ''effective''];
          positiveShift =
            sum_list (map od_delta
              (filter (\<lambda>d. list_ex (includesStr (toLowerCase (od_outcome d))) positiveOutcomes)
                 outcomeShifts));
          netEffect = (if \<bar>positiveShift\<bar> < 5 / 100 then Neutral
                       else if positiveShift > 0 then Positive else Negative);
          minEvidence = min (sim_totalObservations original) (sim_totalObservations alternative)
      in (outcomeShifts, if minEvidence < 5 then Uncertain else netEffect))"

record CounterfactualResult =
  cf_original :: SimulationResult
  cf_alternative :: SimulationResult
  cf_outcomeShifts :: "OutcomeDelta list"
  cf_netEffect :: NetEffect

definition counterfactual :: "store \<Rightarrow> EntityInput list \<Rightarrow> Change \<Rightarrow> CounterfactualResult" where
  "counterfactual st baseInputs change =
     (let original = simulate st baseInputs;
          alternative = simulate st (alternativeInputs baseInputs change);
          comparison = compareOutcomes original alternative
      in \<lparr>cf_original = original, cf_alternative = alternative,
           cf_outcomeShifts = fst comparison, cf_netEffect = snd comparison\<rparr>)"

section \<open>Vocabulary of the properties\<close>

text \<open>A new \<^verbatim>\<open>TrajectoryEngine\<close> over a database: no sequence counter yet.\<close>

definition newEngine :: "store \<Rightarrow> (nat \<Rightarrow> string) \<Rightarrow> engine" where
  "newEngine st ids = \<lparr>db = st, sequenceCounters = Map.empty, idSource = ids, idsUsed = 0\<rparr>"

text \<open>The identifiers used in the examples: \<open>a\<close>, \<open>aa\<close>, \<open>aaa\<close>, ...\<close>

definition exampleIds :: "nat \<Rightarrow> string" where
  "exampleIds n = replicate (Suc n) CHR ''a''"

text \<open>The reply \<^verbatim>\<open>processMessage\<close> falls back to when the language model cannot be reached.\<close>

definition fallbackReply :: string where
  "fallbackReply =
     ''I apologize, but I encountered an error connecting to the AI service. Please try again.''"

definition freshEngine :: engine where
  "freshEngine = newEngine emptyStore exampleIds"

text \<open>The message of the specification's first end-to-end scenario.\<close>

definition exampleMessage :: string where
  "exampleMessage = ''Teaching [[topic:fractions]] with [[strategy:visual models]]''"








text \<open>No edge of the store has a positive or negative outcome counted.\<close>

definition outcomeCountersZero :: "store \<Rightarrow> bool" where
  "outcomeCountersZero st =
     list_all (\<lambda>e. edge_positiveOutcomes e = 0 \<and> edge_negativeOutcomes e = 0) (edges st)"

text \<open>A turn that touches a strategy, a context and an outcome.\<close>

definition contextMessage :: string where
  "contextMessage = ''[[strategy:s]] [[context:c]] [[outcome:o]]''"

text \<open>The ids \<^verbatim>\<open>completeTrajectory\<close> works on: \<^verbatim>\<open>allEntityIds\<close> of a trajectory.\<close>

definition completedIds :: "store \<Rightarrow> string \<Rightarrow> string list" where
  "completedIds st trajectoryId =
     unique (entityIdsOf Touch (trajectoryEvents st trajectoryId) @
             entityIdsOf Discover (trajectoryEvents st trajectoryId))"

text \<open>The update of one entity row when a trajectory over \<open>ids\<close> is completed.\<close>

definition countTrajectory :: "string list \<Rightarrow> entity \<Rightarrow> entity" where
  "countTrajectory ids e =
     (if ent_id e \<in> set ids then e\<lparr>ent_trajectoryCount := ent_trajectoryCount e + 1\<rparr> else e)"







section \<open>Sequence numbers\<close>






section \<open>Evaluating one chat turn\<close>

lemmas engine_defs = logTurn_def processMessage_def freshEngine_def newEngine_def emptyStore_def
  exampleIds_def startTrajectory_def nanoid_def touchStep_def respondStep_def
  findOrCreateEntity_def trackContribution_def logEvent_def truthy_def completeTrajectory_def
  markComplete_def countOnEntities_def countOnContributions_def trajectoryEvents_def entityIdsOf_def unique_def updateCooccurrences_def cooccurrenceStep_def
  strengthenEdges_def strengthenStep_def trackOutcomes_def outcomeStep_def entityInfos_def
  entityInfo_def

lemmas reasoner_defs = simulate_def resolveEntities_def resolveOne_def resolvedEntity_def
  projectOutcomesFromEdges_def mergeOutcome_def projection_def findDifferentiatorsFromStructure_def
  differentiatorOf_def getOutcomeEdgesForEntity_def computeOutcomeShift_def emptyResult_def

lemma example_strings:
  "extractEntities exampleMessage =
     [\<lparr>xe_name = ''fractions'', xe_type = ''topic''\<rparr>,
      \<lparr>xe_name = ''visual models'', xe_type = ''strategy''\<rparr>]"
  "extractEntities fallbackReply = []"
  "extractEntities ''[[strategy:s]] [[outcome:o]]'' =
     [\<lparr>xe_name = ''s'', xe_type = ''strategy''\<rparr>, \<lparr>xe_name = ''o'', xe_type = ''outcome''\<rparr>]"
  "extractEntities ''[[strategy:s]] [[topic:t]] [[outcome:o]]'' =
     [\<lparr>xe_name = ''s'', xe_type = ''strategy''\<rparr>, \<lparr>xe_name = ''t'', xe_type = ''topic''\<rparr>,
      \<lparr>xe_name = ''o'', xe_type = ''outcome''\<rparr>]"
  "extractEntities ''[[outcome:o]] [[topic:t]]'' =
     [\<lparr>xe_name = ''o'', xe_type = ''outcome''\<rparr>, \<lparr>xe_name = ''t'', xe_type = ''topic''\<rparr>]"
  "trim (toLowerCase ''fractions'') = ''fractions''"
  "trim (toLowerCase ''visual models'') = ''visual models''"
  "trim (toLowerCase ''s'') = ''s''" "trim (toLowerCase ''o'') = ''o''"
  "trim (toLowerCase ''t'') = ''t''"
  "(''aaaa'' \<le> ''aaaaaaa'') = True" "(''aaaa'' \<le> ''aaaaaaaaaa'') = True"
  "(''aaaaaaa'' \<le> ''aaaaaaaaaa'') = True"
  by code_simp+


text \<open>
  Claim C3, evaluated where it fails. The message of the specification's scenario, sent
  by one account to a fresh engine and answered without tags, leaves two entities, each
  with \<^verbatim>\<open>touchCount\<close> 2 and \<^verbatim>\<open>contributorCount\<close> 2 (the claim says 1 and 1), one
  contribution row per entity with \<^verbatim>\<open>touchCount\<close> 1, one edge of weight 1 from the first
  entity to the second and one co-occurrence row of count 1.
\<close>

theorem processMessage_two_tags_counts:
  "(let st = db (snd (processMessage freshEngine ''alice'' exampleMessage None fallbackReply 1))
    in map (\<lambda>e. (ent_id e, ent_normalizedName e, ent_touchCount e, ent_contributorCount e))
         (entities st) =
         [(''aaaa'', ''fractions'', 2, 2), (''aaaaaaa'', ''visual models'', 2, 2)] \<and>
       map (\<lambda>c. (con_entityId c, con_nearAccountId c, con_touchCount c)) (contributions st) =
         [(''aaaa'', ''alice'', 1), (''aaaaaaa'', ''alice'', 1)] \<and>
       map (\<lambda>e. (edge_sourceEntityId e, edge_targetEntityId e, edge_weight e)) (edges st) =
         [(''aaaa'', ''aaaaaaa'', 1)] \<and>
       map (\<lambda>c. (co_entityA c, co_entityB c, co_count c)) (cooccurrences st) =
         [(''aaaa'', ''aaaaaaa'', 1)])"
  by (simp add: engine_defs example_strings Let_def cong: let_weak_cong old.prod.case_cong_weak)

text \<open>
  Claim C5, evaluated where it fails. When the strategy is touched immediately before
  the outcome, \<^verbatim>\<open>strengthenEdges\<close> inserts the edge S:O without a relationship type, and
  \<^verbatim>\<open>trackOutcomes\<close> then finds it and only increments it: after one trajectory on a fresh
  store the edge has no relationship type and weight 2. With a topic between the two,
  the edge S:O is inserted by \<^verbatim>\<open>trackOutcomes\<close> with type \<^verbatim>\<open>leads_to\<close> and weight 1.
\<close>

theorem trackOutcomes_adjacent_edge_unlabelled:
  "map (\<lambda>e. (edge_id e, edge_relationshipType e, edge_weight e))
     (edges (db (snd (processMessage freshEngine ''alice'' ''[[strategy:s]] [[outcome:o]]'' None
                        fallbackReply 1)))) =
     [(''aaaa:aaaaaaa'', None, 2)] \<and>
   map (\<lambda>e. (edge_id e, edge_relationshipType e, edge_weight e))
     (edges (db (snd (processMessage freshEngine ''alice''
                        ''[[strategy:s]] [[topic:t]] [[outcome:o]]'' None fallbackReply 1)))) =
     [(''aaaa:aaaaaaa'', None, 1), (''aaaaaaa:aaaaaaaaaa'', None, 1),
      (''aaaa:aaaaaaaaaa'', Some ''leads_to'', 1)]"
  by (simp add: engine_defs example_strings Let_def cong: let_weak_cong old.prod.case_cong_weak)

text \<open>
  Claim C4, evaluated where it fails. After one turn that touches an outcome and then a
  topic, the only edge runs from the outcome to the topic. Simulating the topic resolves
  it, finds no forward edge, and returns no outcome: \<^verbatim>\<open>projectOutcomesFromEdges\<close> returns
  before it reads the reverse edges.
\<close>

theorem simulate_ignores_reverse_edges:
  "(let st = db (snd (processMessage freshEngine ''alice'' ''[[outcome:o]] [[topic:t]]'' None
                        fallbackReply 1));
        result = simulate st [\<lparr>in_name = ''t'', in_type = None\<rparr>]
    in map (\<lambda>e. (ent_id e, ent_entityType e)) (entities st) =
         [(''aaaa'', Some ''outcome''), (''aaaaaaa'', Some ''topic'')] \<and>
       map (\<lambda>e. (edge_sourceEntityId e, edge_targetEntityId e, edge_weight e)) (edges st) =
         [(''aaaa'', ''aaaaaaa'', 1)] \<and>
       map re_id (sim_resolved result) = [''aaaaaaa''] \<and>
       sim_outcomes result = [])"
  apply (simp add: engine_defs example_strings Let_def
      cong: let_weak_cong old.prod.case_cong_weak)
  apply (simp add: reasoner_defs example_strings truthy_def Let_def
      cong: let_weak_cong old.prod.case_cong_weak)
  done

text \<open>
  Claim C8, evaluated where it fails. The change keeps the name and replaces the type:
  the first element matches and is replaced, but \<^verbatim>\<open>swapped\<close> compares names only and
  stays false, so the branch for "no swap happened" runs: it removes every element named
  like \<^verbatim>\<open>from\<close>, the topic that did not match included, and appends \<^verbatim>\<open>to\<close> once.
\<close>

theorem alternativeInputs_same_name_swap:
  "alternativeInputs
     [\<lparr>in_name = ''A'', in_type = Some ''strategy''\<rparr>, \<lparr>in_name = ''A'', in_type = Some ''topic''\<rparr>]
     \<lparr>ch_from = \<lparr>in_name = ''A'', in_type = Some ''strategy''\<rparr>,
      ch_to = \<lparr>in_name = ''A'', in_type = Some ''context''\<rparr>\<rparr> =
     [\<lparr>in_name = ''A'', in_type = Some ''context''\<rparr>]"
  by code_simp

theorem alternativeInputs_same_name_swap_witness:
  "length (alternativeInputs
     [\<lparr>in_name = ''A'', in_type = Some ''strategy''\<rparr>, \<lparr>in_name = ''A'', in_type = Some ''topic''\<rparr>]
     \<lparr>ch_from = \<lparr>in_name = ''A'', in_type = Some ''strategy''\<rparr>,
      ch_to = \<lparr>in_name = ''A'', in_type = Some ''context''\<rparr>\<rparr>) = 1"
  using alternativeInputs_same_name_swap by simp

section \<open>Outcome distribution\<close>















section \<open>Differentiators\<close>

lemma sum_list_zero: "(\<And>x. x \<in> set xs \<Longrightarrow> f x = (0::int)) \<Longrightarrow> sum_list (map f xs) = 0"
  by (induction xs) auto

lemma getOutcomeEdges_zero:
  assumes "outcomeCountersZero st" and "x \<in> set (getOutcomeEdgesForEntity st i)"
  shows "oed_positiveCount x = 0 \<and> oed_negativeCount x = 0"
  using assms by (auto simp: outcomeCountersZero_def getOutcomeEdgesForEntity_def list_all_iff)

lemma computeOutcomeShift_zero:
  assumes "outcomeCountersZero st"
  shows "os_magnitude (computeOutcomeShift (getOutcomeEdgesForEntity st i)) = 0"
proof -
  let ?es = "getOutcomeEdgesForEntity st i"
  have "sum_list (map oed_positiveCount ?es) = 0"
    using getOutcomeEdges_zero [OF assms] by (intro sum_list_zero) simp
  moreover have "sum_list (map oed_negativeCount ?es) = 0"
    using getOutcomeEdges_zero [OF assms] by (intro sum_list_zero) simp
  ultimately show ?thesis by (simp add: computeOutcomeShift_def Let_def)
qed

lemma differentiatorOf_zero:
  "outcomeCountersZero st \<Longrightarrow> differentiatorOf st ids row = []"
  by (simp add: differentiatorOf_def Let_def computeOutcomeShift_zero)

lemma differentiators_zero:
  "outcomeCountersZero st \<Longrightarrow> concat (map (differentiatorOf st ids) rows) = []"
  by (induction rows) (simp_all add: differentiatorOf_zero)

lemma findDifferentiators_zero:
  "outcomeCountersZero st \<Longrightarrow> findDifferentiatorsFromStructure st ids = []"
  by (simp add: findDifferentiatorsFromStructure_def Let_def differentiators_zero)


lemma edges_cooccurrenceStep: "edges (cooccurrenceStep st p) = edges st"
  by (simp add: cooccurrenceStep_def Let_def split: option.split)

lemma edges_updateCooccurrences: "edges (updateCooccurrences st ids) = edges st"
proof -
  have "edges (foldl cooccurrenceStep st ps) = edges st" for ps
    by (induction ps arbitrary: st) (simp_all add: edges_cooccurrenceStep)
  then show ?thesis by (simp add: updateCooccurrences_def)
qed

lemma strengthenStep_zero:
  "outcomeCountersZero (snd acc) \<Longrightarrow> outcomeCountersZero (snd (strengthenStep acc p))"
  by (auto simp: strengthenStep_def outcomeCountersZero_def Let_def list_all_iff
      split: option.split)

lemma strengthenEdges_zero:
  "outcomeCountersZero st \<Longrightarrow> outcomeCountersZero (snd (strengthenEdges st ids))"
proof -
  have "outcomeCountersZero (snd acc) \<Longrightarrow> outcomeCountersZero (snd (foldl strengthenStep acc ps))"
    for acc ps
    by (induction ps arbitrary: acc) (simp_all add: strengthenStep_zero)
  then show "outcomeCountersZero st \<Longrightarrow> outcomeCountersZero (snd (strengthenEdges st ids))"
    by (simp add: strengthenEdges_def)
qed

lemma outcomeStep_zero:
  "outcomeCountersZero st \<Longrightarrow> outcomeCountersZero (outcomeStep s st q)"
  by (auto simp: outcomeStep_def outcomeCountersZero_def Let_def list_all_iff
      split: option.split)

lemma trackOutcomes_zero:
  "outcomeCountersZero st \<Longrightarrow> outcomeCountersZero (trackOutcomes st ids)"
proof -
  have inner: "outcomeCountersZero st1 \<Longrightarrow> outcomeCountersZero (foldl (outcomeStep s) st1 qs)"
    for st1 s qs
    by (induction qs arbitrary: st1) (simp_all add: outcomeStep_zero)
  have outer: "outcomeCountersZero st1 \<Longrightarrow>
      outcomeCountersZero (foldl (\<lambda>st2 s. foldl (outcomeStep s) st2 qs) st1 ss)"
    for st1 ss qs
    by (induction ss arbitrary: st1) (simp_all add: inner)
  show "outcomeCountersZero st \<Longrightarrow> outcomeCountersZero (trackOutcomes st ids)"
    by (simp add: trackOutcomes_def Let_def outer)
qed

lemma edges_countOnContributions: "edges (countOnContributions st acct ids) = edges st"
proof -
  have "edges (foldl (\<lambda>st1 entityId. st1\<lparr>contributions := f st1 entityId\<rparr>) st ids) = edges st"
    for f
    by (induction ids arbitrary: st) simp_all
  then show ?thesis by (simp add: countOnContributions_def)
qed

lemma completeTrajectory_zero:
  assumes "outcomeCountersZero (db eng)"
  shows "outcomeCountersZero (db (snd (completeTrajectory eng tid acct summary now)))"
proof -
  have z: "outcomeCountersZero st" if "edges st = edges (db eng)" for st
    using assms that by (simp add: outcomeCountersZero_def)
  show ?thesis
    by (simp add: completeTrajectory_def Let_def case_prod_beta)
      (intro trackOutcomes_zero strengthenEdges_zero z,
        simp add: edges_updateCooccurrences edges_countOnContributions countOnEntities_def
          markComplete_def)
qed

lemma edges_trackContribution: "edges (db (trackContribution eng e a t)) = edges (db eng)"
  by (simp add: trackContribution_def nanoid_def Let_def split: option.split)

lemma edges_findOrCreateEntity:
  "edges (db (snd (findOrCreateEntity eng a t n ty d))) = edges (db eng)"
  by (simp add: findOrCreateEntity_def nanoid_def Let_def edges_trackContribution
      split: option.split)

lemma edges_logEvent: "edges (db (snd (logEvent eng t ev))) = edges (db eng)"
  by (simp add: logEvent_def nanoid_def Let_def)

lemma edges_startTrajectory: "edges (db (snd (startTrajectory eng a txt c))) = edges (db eng)"
  by (simp add: startTrajectory_def nanoid_def Let_def)

lemma edges_touchStep: "edges (db (snd (touchStep a t acc x))) = edges (db (snd acc))"
  by (simp add: touchStep_def case_prod_beta Let_def edges_logEvent edges_findOrCreateEntity)

lemma edges_respondStep: "edges (db (snd (respondStep a t ts acc x))) = edges (db (snd acc))"
  by (simp add: respondStep_def case_prod_beta Let_def edges_logEvent edges_findOrCreateEntity)

lemma edges_logTurn: "edges (db (snd (logTurn eng a m c r))) = edges (db eng)"
proof -
  have t: "edges (db (snd (foldl (touchStep a t) acc xs))) = edges (db (snd acc))" for t acc xs
    by (induction xs arbitrary: acc) (simp_all add: edges_touchStep)
  have r: "edges (db (snd (foldl (respondStep a t ts) acc xs))) = edges (db (snd acc))"
    for t ts acc xs
    by (induction xs arbitrary: acc) (simp_all add: edges_respondStep)
  show ?thesis
    by (simp add: logTurn_def case_prod_beta Let_def edges_logEvent t r edges_startTrajectory
        nanoid_def split: option.split)
qed

lemma processMessage_zero:
  assumes "outcomeCountersZero (db eng)"
  shows "outcomeCountersZero (db (snd (processMessage eng a m c r now)))"
proof -
  have "outcomeCountersZero (db (snd (logTurn eng a m c r)))"
    using assms by (simp add: outcomeCountersZero_def edges_logTurn)
  then show ?thesis
    by (simp add: processMessage_def case_prod_beta Let_def nanoid_def completeTrajectory_zero)
qed

text \<open>
  Claim C10. On a store where no edge has a positive or negative outcome counted, every
  candidate's positive rate is the baseline 0.5, its magnitude is 0 and the filter drops
  it: \<^verbatim>\<open>simulate\<close> returns no differentiator, and \<^verbatim>\<open>hasPatterns\<close> holds exactly when
  there is an outcome. The engine writes such stores only (\<open>processMessage_zero\<close>).
\<close>

theorem simulate_without_outcome_counters:
  assumes "outcomeCountersZero st"
  shows "sim_differentiators (simulate st inputs) = [] \<and>
         sim_hasPatterns (simulate st inputs) = (sim_outcomes (simulate st inputs) \<noteq> [])"
  using assms
  by (simp add: simulate_def emptyResult_def case_prod_beta Let_def findDifferentiators_zero)

lemma contextMessage_strings:
  "extractEntities contextMessage =
     [\<lparr>xe_name = ''s'', xe_type = ''strategy''\<rparr>, \<lparr>xe_name = ''c'', xe_type = ''context''\<rparr>,
      \<lparr>xe_name = ''o'', xe_type = ''outcome''\<rparr>]"
  "trim (toLowerCase ''c'') = ''c''"
  by code_simp+

lemma contextMessage_simulation:
  "(let st = db (snd (processMessage freshEngine ''alice'' contextMessage None fallbackReply 1));
        result = simulate st [\<lparr>in_name = ''s'', in_type = Some ''strategy''\<rparr>]
    in map (\<lambda>c. (co_entityA c, co_entityB c, co_count c)) (cooccurrences st) =
         [(''aaaa'', ''aaaaaaa'', 1), (''aaaa'', ''aaaaaaaaaa'', 1), (''aaaaaaa'', ''aaaaaaaaaa'', 1)] \<and>
       map (\<lambda>e. (ent_id e, ent_entityType e)) (entities st) =
         [(''aaaa'', Some ''strategy''), (''aaaaaaa'', Some ''context''), (''aaaaaaaaaa'', Some ''outcome'')] \<and>
       map op_outcome (sim_outcomes result) = [''o''])"
  apply (simp add: engine_defs example_strings contextMessage_strings Let_def
      cong: let_weak_cong old.prod.case_cong_weak)
  apply (simp add: reasoner_defs example_strings truthy_def Let_def
      cong: let_weak_cong old.prod.case_cong_weak)
  done

theorem simulate_without_outcome_counters_witness:
  "(let st = db (snd (processMessage freshEngine ''alice'' contextMessage None fallbackReply 1));
        result = simulate st [\<lparr>in_name = ''s'', in_type = Some ''strategy''\<rparr>]
    in sim_differentiators result = [] \<and> sim_hasPatterns result \<and>
       map op_outcome (sim_outcomes result) = [''o''])"
proof -
  let ?st = "db (snd (processMessage freshEngine ''alice'' contextMessage None fallbackReply 1))"
  let ?inputs = "[\<lparr>in_name = ''s'', in_type = Some ''strategy''\<rparr>]"
  have "outcomeCountersZero (db freshEngine)"
    by (simp add: outcomeCountersZero_def freshEngine_def newEngine_def emptyStore_def)
  then have z: "outcomeCountersZero ?st" by (rule processMessage_zero)
  have o: "map op_outcome (sim_outcomes (simulate ?st ?inputs)) = [''o'']"
    using contextMessage_simulation by (simp add: Let_def)
  then have "sim_outcomes (simulate ?st ?inputs) \<noteq> []" by auto
  with simulate_without_outcome_counters [OF z, of ?inputs] o show ?thesis
    by (simp add: Let_def)
qed

section \<open>Completing a trajectory twice\<close>

lemma cooccurrenceStep_frame:
  "entities (cooccurrenceStep st p) = entities st" "events (cooccurrenceStep st p) = events st"
  "trajectories (cooccurrenceStep st p) = trajectories st"
  by (simp_all add: cooccurrenceStep_def Let_def split: option.split)

lemma updateCooccurrences_frame:
  "entities (updateCooccurrences st ids) = entities st"
  "events (updateCooccurrences st ids) = events st"
  "trajectories (updateCooccurrences st ids) = trajectories st"
proof -
  have "entities (foldl cooccurrenceStep st ps) = entities st \<and>
        events (foldl cooccurrenceStep st ps) = events st \<and>
        trajectories (foldl cooccurrenceStep st ps) = trajectories st" for ps
    by (induction ps arbitrary: st) (simp_all add: cooccurrenceStep_frame)
  then show "entities (updateCooccurrences st ids) = entities st"
    "events (updateCooccurrences st ids) = events st"
    "trajectories (updateCooccurrences st ids) = trajectories st"
    by (simp_all add: updateCooccurrences_def)
qed

lemma strengthenStep_frame:
  "entities (snd (strengthenStep acc p)) = entities (snd acc)"
  "events (snd (strengthenStep acc p)) = events (snd acc)"
  "trajectories (snd (strengthenStep acc p)) = trajectories (snd acc)"
  by (simp_all add: strengthenStep_def Let_def split: option.split)

lemma strengthenEdges_frame:
  "entities (snd (strengthenEdges st ids)) = entities st"
  "events (snd (strengthenEdges st ids)) = events st"
  "trajectories (snd (strengthenEdges st ids)) = trajectories st"
proof -
  have "entities (snd (foldl strengthenStep acc ps)) = entities (snd acc) \<and>
        events (snd (foldl strengthenStep acc ps)) = events (snd acc) \<and>
        trajectories (snd (foldl strengthenStep acc ps)) = trajectories (snd acc)" for acc ps
    by (induction ps arbitrary: acc) (simp_all add: strengthenStep_frame)
  then show "entities (snd (strengthenEdges st ids)) = entities st"
    "events (snd (strengthenEdges st ids)) = events st"
    "trajectories (snd (strengthenEdges st ids)) = trajectories st"
    by (simp_all add: strengthenEdges_def)
qed

lemma outcomeStep_frame:
  "entities (outcomeStep s st q) = entities st" "events (outcomeStep s st q) = events st"
  "trajectories (outcomeStep s st q) = trajectories st"
  by (simp_all add: outcomeStep_def Let_def split: option.split)

lemma trackOutcomes_frame:
  "entities (trackOutcomes st ids) = entities st" "events (trackOutcomes st ids) = events st"
  "trajectories (trackOutcomes st ids) = trajectories st"
proof -
  have inner: "entities (foldl (outcomeStep s) st1 qs) = entities st1 \<and>
               events (foldl (outcomeStep s) st1 qs) = events st1 \<and>
               trajectories (foldl (outcomeStep s) st1 qs) = trajectories st1" for s st1 qs
    by (induction qs arbitrary: st1) (simp_all add: outcomeStep_frame)
  have outer: "entities (foldl (\<lambda>st2 s. foldl (outcomeStep s) st2 qs) st1 ss) = entities st1 \<and>
               events (foldl (\<lambda>st2 s. foldl (outcomeStep s) st2 qs) st1 ss) = events st1 \<and>
               trajectories (foldl (\<lambda>st2 s. foldl (outcomeStep s) st2 qs) st1 ss) = trajectories st1"
    for st1 ss qs
    by (induction ss arbitrary: st1) (simp_all add: inner)
  show "entities (trackOutcomes st ids) = entities st" "events (trackOutcomes st ids) = events st"
    "trajectories (trackOutcomes st ids) = trajectories st"
    by (simp_all add: trackOutcomes_def Let_def outer)
qed

lemma countOnContributions_frame:
  "entities (countOnContributions st acct ids) = entities st"
  "events (countOnContributions st acct ids) = events st"
  "trajectories (countOnContributions st acct ids) = trajectories st"
proof -
  have "entities (foldl (\<lambda>st1 entityId. st1\<lparr>contributions := f st1 entityId\<rparr>) st ids) = entities st \<and>
        events (foldl (\<lambda>st1 entityId. st1\<lparr>contributions := f st1 entityId\<rparr>) st ids) = events st \<and>
        trajectories (foldl (\<lambda>st1 entityId. st1\<lparr>contributions := f st1 entityId\<rparr>) st ids) = trajectories st"
    for f
    by (induction ids arbitrary: st) simp_all
  then show "entities (countOnContributions st acct ids) = entities st"
    "events (countOnContributions st acct ids) = events st"
    "trajectories (countOnContributions st acct ids) = trajectories st"
    by (simp_all add: countOnContributions_def)
qed

lemma countOnEntities_entities:
  "entities (countOnEntities st ids) = map (countTrajectory ids) (entities st)"
  by (simp add: countOnEntities_def countTrajectory_def cong: map_cong)

lemma countOnEntities_frame:
  "events (countOnEntities st ids) = events st"
  "trajectories (countOnEntities st ids) = trajectories st"
  by (simp_all add: countOnEntities_def)

lemma markComplete_frame:
  "entities (markComplete st tid summary now) = entities st"
  "events (markComplete st tid summary now) = events st"
  "trajectories (markComplete st tid summary now) =
     map (\<lambda>t. if tr_id t = tid then t\<lparr>tr_completedAt := Some now, tr_summary := summary\<rparr> else t)
       (trajectories st)"
  by (simp_all add: markComplete_def)

lemma trajectoryEvents_markComplete:
  "trajectoryEvents (markComplete st tid summary now) tid' = trajectoryEvents st tid'"
  by (simp add: trajectoryEvents_def markComplete_frame)

lemma filter_ids_if:
  "(if ids \<noteq> [] then filter (\<lambda>e. ent_id e \<in> set ids) es else []) =
     filter (\<lambda>e. ent_id e \<in> set ids) es"
  by simp

lemmas complete_frames = updateCooccurrences_frame strengthenEdges_frame trackOutcomes_frame
  countOnContributions_frame countOnEntities_frame countOnEntities_entities markComplete_frame
  trajectoryEvents_markComplete filter_ids_if

lemma completeTrajectory_events:
  "events (db (snd (completeTrajectory eng tid acct summary now))) = events (db eng)"
  by (simp add: completeTrajectory_def Let_def case_prod_beta complete_frames)

lemma completeTrajectory_entities:
  "entities (db (snd (completeTrajectory eng tid acct summary now))) =
     map (countTrajectory (completedIds (db eng) tid)) (entities (db eng))"
  by (simp add: completeTrajectory_def Let_def case_prod_beta complete_frames completedIds_def)

lemma completeTrajectory_completedAt:
  "trajectories (db (snd (completeTrajectory eng tid acct summary now))) =
     map (\<lambda>t. if tr_id t = tid then t\<lparr>tr_completedAt := Some now, tr_summary := summary\<rparr> else t)
       (trajectories (db eng))"
  by (simp add: completeTrajectory_def Let_def case_prod_beta complete_frames)

lemma completedIds_after:
  "completedIds (db (snd (completeTrajectory eng tid acct summary now))) tid' =
     completedIds (db eng) tid'"
  by (simp add: completedIds_def trajectoryEvents_def completeTrajectory_events)

lemma find_countTrajectory:
  "find (\<lambda>e. ent_id e = i) (map (countTrajectory ids) ents) =
     map_option (countTrajectory ids) (find (\<lambda>e. ent_id e = i) ents)"
  by (induction ents) (auto simp: countTrajectory_def)

lemma filter_countTrajectory:
  "filter (\<lambda>e. ent_id e \<in> A) (map (countTrajectory ids) ents) =
     map (countTrajectory ids) (filter (\<lambda>e. ent_id e \<in> A) ents)"
  by (induction ents) (auto simp: countTrajectory_def)

lemma entityInfo_countTrajectory: "entityInfo (countTrajectory ids e) = entityInfo e"
  by (simp add: entityInfo_def countTrajectory_def)

lemma entityInfos_countTrajectory:
  "entityInfos (map (countTrajectory ids) ents) is = entityInfos ents is"
proof -
  have "(case find (\<lambda>e. ent_id e = i) (rev (map (countTrajectory ids) ents)) of
           Some e \<Rightarrow> [entityInfo e] | None \<Rightarrow> []) =
        (case find (\<lambda>e. ent_id e = i) (rev ents) of Some e \<Rightarrow> [entityInfo e] | None \<Rightarrow> [])" for i
    by (cases "find (\<lambda>e. ent_id e = i) (rev ents)")
      (simp_all add: rev_map find_countTrajectory entityInfo_countTrajectory)
  then show ?thesis by (simp add: entityInfos_def)
qed

lemma completeTrajectory_result:
  "entitiesTouched (fst (completeTrajectory eng tid acct summary now)) =
     entityInfos (filter (\<lambda>e. ent_id e \<in> set (completedIds (db eng) tid)) (entities (db eng)))
       (entityIdsOf Touch (trajectoryEvents (db eng) tid))"
  "entitiesDiscovered (fst (completeTrajectory eng tid acct summary now)) =
     entityInfos (filter (\<lambda>e. ent_id e \<in> set (completedIds (db eng) tid)) (entities (db eng)))
       (entityIdsOf Discover (trajectoryEvents (db eng) tid))"
  by (simp_all add: completeTrajectory_def Let_def case_prod_beta complete_frames
      completedIds_def filter_countTrajectory entityInfos_countTrajectory)

lemma cooccurrenceStep_cong:
  "cooccurrences st = cooccurrences st' \<Longrightarrow>
   cooccurrences (cooccurrenceStep st p) = cooccurrences (cooccurrenceStep st' p)"
  by (simp add: cooccurrenceStep_def Let_def split: option.split)

lemma updateCooccurrences_cong:
  assumes "cooccurrences st = cooccurrences st'"
  shows "cooccurrences (updateCooccurrences st ids) = cooccurrences (updateCooccurrences st' ids)"
proof -
  have "cooccurrences st1 = cooccurrences st2 \<Longrightarrow>
        cooccurrences (foldl cooccurrenceStep st1 ps) = cooccurrences (foldl cooccurrenceStep st2 ps)"
    for st1 st2 ps
  proof (induction ps arbitrary: st1 st2)
    case Nil
    then show ?case by simp
  next
    case (Cons p ps)
    have "cooccurrences (cooccurrenceStep st1 p) = cooccurrences (cooccurrenceStep st2 p)"
      using Cons.prems by (rule cooccurrenceStep_cong)
    from Cons.IH [OF this] show ?case by simp
  qed
  from this [OF assms] show ?thesis using assms by (simp add: updateCooccurrences_def)
qed

lemma strengthenStep_cooccurrences:
  "cooccurrences (snd (strengthenStep acc p)) = cooccurrences (snd acc)"
  by (simp add: strengthenStep_def Let_def split: option.split)

lemma strengthenEdges_cooccurrences:
  "cooccurrences (snd (strengthenEdges st ids)) = cooccurrences st"
proof -
  have "cooccurrences (snd (foldl strengthenStep acc ps)) = cooccurrences (snd acc)" for acc ps
    by (induction ps arbitrary: acc) (simp_all add: strengthenStep_cooccurrences)
  then show ?thesis by (simp add: strengthenEdges_def)
qed

lemma trackOutcomes_cooccurrences: "cooccurrences (trackOutcomes st ids) = cooccurrences st"
proof -
  have inner: "cooccurrences (foldl (outcomeStep s) st1 qs) = cooccurrences st1" for s st1 qs
    by (induction qs arbitrary: st1) (simp_all add: outcomeStep_def Let_def split: option.split)
  have "cooccurrences (foldl (\<lambda>st2 s. foldl (outcomeStep s) st2 qs) st1 ss) = cooccurrences st1"
    for st1 ss qs
    by (induction ss arbitrary: st1) (simp_all add: inner)
  then show ?thesis by (simp add: trackOutcomes_def Let_def)
qed

lemma countOnContributions_cooccurrences:
  "cooccurrences (countOnContributions st acct ids) = cooccurrences st"
proof -
  have "cooccurrences (foldl (\<lambda>st1 entityId. st1\<lparr>contributions := f st1 entityId\<rparr>) st ids) =
        cooccurrences st" for f
    by (induction ids arbitrary: st) simp_all
  then show ?thesis by (simp add: countOnContributions_def)
qed

lemma completeTrajectory_cooccurrences:
  "cooccurrences (db (snd (completeTrajectory eng tid acct summary now))) =
     cooccurrences (updateCooccurrences (db eng) (completedIds (db eng) tid))"
proof -
  have "cooccurrences (db (snd (completeTrajectory eng tid acct summary now))) =
      cooccurrences (updateCooccurrences
        (countOnContributions
           (countOnEntities (markComplete (db eng) tid summary now) (completedIds (db eng) tid))
           acct (completedIds (db eng) tid))
        (completedIds (db eng) tid))"
    by (simp add: completeTrajectory_def Let_def case_prod_beta complete_frames completedIds_def
        trackOutcomes_cooccurrences strengthenEdges_cooccurrences)
  also have "\<dots> = cooccurrences (updateCooccurrences (db eng) (completedIds (db eng) tid))"
    by (rule updateCooccurrences_cong)
      (simp add: countOnContributions_cooccurrences countOnEntities_def markComplete_def)
  finally show ?thesis .
qed

text \<open>
  Claim C1, as amended. \<^verbatim>\<open>completeTrajectory\<close> does not look at \<^verbatim>\<open>completedAt\<close>. A
  second call for the same trajectory returns the same \<^verbatim>\<open>entitiesTouched\<close> and
  \<^verbatim>\<open>entitiesDiscovered\<close> as the first, but it is not a no-op: it again adds 1 to the
  \<^verbatim>\<open>trajectoryCount\<close> of every entity the trajectory touched or discovered, applies the
  co-occurrence update for those ids once more, and overwrites \<^verbatim>\<open>completedAt\<close> and
  \<^verbatim>\<open>summary\<close>.
\<close>

theorem completeTrajectory_repeated:
  "(let first = completeTrajectory eng tid acct summary now;
        second = completeTrajectory (snd first) tid acct' summary' now'
    in entitiesTouched (fst second) = entitiesTouched (fst first) \<and>
       entitiesDiscovered (fst second) = entitiesDiscovered (fst first) \<and>
       entities (db (snd second)) =
         map (countTrajectory (completedIds (db eng) tid)) (entities (db (snd first))) \<and>
       cooccurrences (db (snd second)) =
         cooccurrences (updateCooccurrences (db (snd first)) (completedIds (db eng) tid)) \<and>
       trajectories (db (snd second)) =
         map (\<lambda>t. if tr_id t = tid then t\<lparr>tr_completedAt := Some now', tr_summary := summary'\<rparr>
                   else t)
           (trajectories (db (snd first))))"
proof -
  let ?first = "completeTrajectory eng tid acct summary now"
  let ?second = "completeTrajectory (snd ?first) tid acct' summary' now'"
  have ids: "completedIds (db (snd ?first)) tid = completedIds (db eng) tid"
    by (rule completedIds_after)
  have evs: "trajectoryEvents (db (snd ?first)) tid = trajectoryEvents (db eng) tid"
    by (simp add: trajectoryEvents_def completeTrajectory_events)
  have ents: "entities (db (snd ?first)) =
      map (countTrajectory (completedIds (db eng) tid)) (entities (db eng))"
    by (rule completeTrajectory_entities)
  have t: "entitiesTouched (fst ?second) = entitiesTouched (fst ?first)"
    by (simp add: completeTrajectory_result ids evs ents filter_countTrajectory
        entityInfos_countTrajectory)
  have d: "entitiesDiscovered (fst ?second) = entitiesDiscovered (fst ?first)"
    by (simp add: completeTrajectory_result ids evs ents filter_countTrajectory
        entityInfos_countTrajectory)
  have e: "entities (db (snd ?second)) =
      map (countTrajectory (completedIds (db eng) tid)) (entities (db (snd ?first)))"
    using completeTrajectory_entities [of "snd ?first" tid acct' summary' now'] ids by simp
  have c: "cooccurrences (db (snd ?second)) =
      cooccurrences (updateCooccurrences (db (snd ?first)) (completedIds (db eng) tid))"
    using completeTrajectory_cooccurrences [of "snd ?first" tid acct' summary' now'] ids by simp
  have tr: "trajectories (db (snd ?second)) =
      map (\<lambda>t. if tr_id t = tid then t\<lparr>tr_completedAt := Some now', tr_summary := summary'\<rparr>
                else t)
        (trajectories (db (snd ?first)))"
    by (rule completeTrajectory_completedAt)
  show ?thesis unfolding Let_def using t d e c tr by (intro conjI)
qed

text \<open>
  Claim C1 as stated fails: after the turn of the specification's first scenario, which
  completes its trajectory at time 1, a second \<^verbatim>\<open>completeTrajectory\<close> for that trajectory
  raises both entities' \<^verbatim>\<open>trajectoryCount\<close> from 2 to 3, the edge's weight from 1 to 2
  and the co-occurrence count from 1 to 2.
\<close>

theorem completeTrajectory_not_idempotent:
  "(let eng1 = snd (processMessage freshEngine ''alice'' exampleMessage None fallbackReply 1);
        eng2 = snd (completeTrajectory eng1 ''aa'' ''alice'' None 2)
    in map tr_completedAt (trajectories (db eng1)) = [Some 1] \<and>
       map ent_trajectoryCount (entities (db eng1)) = [2, 2] \<and>
       map ent_trajectoryCount (entities (db eng2)) = [3, 3] \<and>
       map edge_weight (edges (db eng1)) = [1] \<and>
       map edge_weight (edges (db eng2)) = [2] \<and>
       map co_count (cooccurrences (db eng1)) = [1] \<and>
       map co_count (cooccurrences (db eng2)) = [2])"
  by (simp add: engine_defs example_strings Let_def cong: let_weak_cong old.prod.case_cong_weak)

section \<open>Tag extraction and its round trip\<close>

lemma char_eq_code: "c = d \<longleftrightarrow> (of_char c :: nat) = of_char d"
  by simp

lemma of_char_lowerChar:
  "(of_char (lowerChar c) :: nat) =
     (let n = of_char c
      in if (65 \<le> n \<and> n \<le> 90) \<or> (192 \<le> n \<and> n \<le> 222 \<and> n \<noteq> 215) then n + 32 else n)"
  by (auto simp: lowerChar_def Let_def)





lemma lowerChar_eq_open: "lowerChar c = CHR ''['' \<longleftrightarrow> c = CHR ''[''"
  by (auto simp: char_eq_code of_char_lowerChar Let_def)




































end
